theory Spec2Isabelle
  imports Main "HOL-Library.Word"
begin

section \<open>project\_definitions.h\<close>

subsection \<open>Characters and fixed strings\<close>

text \<open>
  The escape character written \<^verbatim>\<open>\033\<close> in the C++ string literals (octal 33, byte
  0x1B) and the line feed that \<^verbatim>\<open>std::endl\<close> inserts.
\<close>

definition ESC :: char where
  "ESC = CHR 0x1B"

definition LF :: char where
  "LF = CHR 0x0A"

text \<open>\<^verbatim>\<open>#define UNIX_COLOR_END_TAG "\033[m"\<close>\<close>

definition UNIX_COLOR_END_TAG :: string where
  "UNIX_COLOR_END_TAG = ESC # ''[m''"

subsection \<open>EPrintColor\<close>

text \<open>
  \<^verbatim>\<open>enum class EPrintColor : unsigned char\<close>: a value of the type is any byte; the
  sixteen enumerators are the bytes 0 .. 15, in declaration order.
\<close>

type_synonym EPrintColor = "8 word"

definition Red :: EPrintColor where "Red = 0"
definition Green :: EPrintColor where "Green = 1"
definition Blue :: EPrintColor where "Blue = 2"
definition White :: EPrintColor where "White = 3"
definition Black :: EPrintColor where "Black = 4"
definition Magenta :: EPrintColor where "Magenta = 5"
definition Cyan :: EPrintColor where "Cyan = 6"
definition Yellow :: EPrintColor where "Yellow = 7"
definition Gray :: EPrintColor where "Gray = 8"
definition LightRed :: EPrintColor where "LightRed = 9"
definition LightGreen :: EPrintColor where "LightGreen = 10"
definition LightBlue :: EPrintColor where "LightBlue = 11"
definition LightWhite :: EPrintColor where "LightWhite = 12"
definition LightMagenta :: EPrintColor where "LightMagenta = 13"
definition LightCyan :: EPrintColor where "LightCyan = 14"
definition LightYellow :: EPrintColor where "LightYellow = 15"

subsection \<open>ELogCategory and ELogCategoryState\<close>

text \<open>
  \<^verbatim>\<open>enum class ELogCategory : int\<close>: a value of the type is any value of the
  underlying integer type, which is what \<^verbatim>\<open>static_cast<ELogCategory>(i)\<close> in the
  constructor of the registry relies on. The enumerators are 0 .. 6, the last one being
  the sentinel that counts the categories. The width of \<^verbatim>\<open>int\<close> plays no role: the
  only arithmetic on categories is the counting loop from 0 to 6.
\<close>

type_synonym ELogCategory = int

definition Default :: ELogCategory where "Default = 0"
definition Error :: ELogCategory where "Error = 1"
definition Core :: ELogCategory where "Core = 2"
definition Editor :: ELogCategory where "Editor = 3"
definition Component :: ELogCategory where "Component = 4"
definition Threads :: ELogCategory where "Threads = 5"
definition AutoCount :: ELogCategory where "AutoCount = 6"

text \<open>
  \<^verbatim>\<open>enum class ELogCategoryState : int { Enabled, Disabled, AutoCount }\<close>. The
  third enumerator is a state of the type like the other two, although the registry never
  stores it.
\<close>

datatype ELogCategoryState = Enabled | Disabled | State_AutoCount

subsection \<open>Color\_To\_Ansi\<close>

text \<open>
  The \<^verbatim>\<open>switch\<close> over the colour, case by case in the order of the source, with
  its \<^verbatim>\<open>default\<close> branch last.
\<close>

definition Color_To_Ansi :: "EPrintColor \<Rightarrow> string" where
  "Color_To_Ansi color =
    (if color = Red then ESC # ''[1;31m''
     else if color = Green then ESC # ''[1;32m''
     else if color = Blue then ESC # ''[1;34m''
     else if color = White then ESC # ''[1;37m''
     else if color = Black then ESC # ''[1;30m''
     else if color = Magenta then ESC # ''[1;35m''
     else if color = Cyan then ESC # ''[1;36m''
     else if color = Yellow then ESC # ''[1;33m''
     else if color = Gray then ESC # ''[1;90m''
     else if color = LightRed then ESC # ''[1;91m''
     else if color = LightGreen then ESC # ''[1;92m''
     else if color = LightBlue then ESC # ''[1;94m''
     else if color = LightWhite then ESC # ''[1;97m''
     else if color = LightMagenta then ESC # ''[1;95m''
     else if color = LightCyan then ESC # ''[1;96m''
     else if color = LightYellow then ESC # ''[1;94m''
     else ESC # ''[1;37m'')"

section \<open>log\_categories.h: the registry of category states\<close>

text \<open>
  The one data member of \<^verbatim>\<open>LogManager\<close> is a
  \<^verbatim>\<open>std::map<ELogCategory, ELogCategoryState>\<close>. A key is present or absent, so the
  map is a partial function. Two operations of \<^verbatim>\<open>std::map\<close> are used:
  \<^verbatim>\<open>operator[]\<close> followed by an assignment, which inserts the key when it is absent
  and overwrites the value otherwise, and \<^verbatim>\<open>at\<close>, which throws
  \<^verbatim>\<open>std::out_of_range\<close> when the key is absent. Failure of memory allocation is
  outside the model.
\<close>

datatype error = out_of_range

record LogManager =
  logCategoryStates :: "ELogCategory \<rightharpoonup> ELogCategoryState"

text \<open>
  The constructor: the counting loop
  \<^verbatim>\<open>for (int i = 0; i < static_cast<int>(ELogCategory::AutoCount); ++i)\<close>
  over an initially empty map.
\<close>

function LogManager_loop ::
  "int \<Rightarrow> (ELogCategory \<rightharpoonup> ELogCategoryState) \<Rightarrow> (ELogCategory \<rightharpoonup> ELogCategoryState)" where
  "LogManager_loop i m =
    (if i < AutoCount then LogManager_loop (i + 1) (m(i \<mapsto> Enabled)) else m)"
  by pat_completeness auto
termination
  by (relation "measure (\<lambda>(i, m). nat (AutoCount - i))") auto

definition LogManager_new :: LogManager where
  "LogManager_new = \<lparr>logCategoryStates = LogManager_loop 0 Map.empty\<rparr>"

text \<open>The two mutators return the updated registry.\<close>

definition EnableCategory :: "LogManager \<Rightarrow> ELogCategory \<Rightarrow> LogManager" where
  "EnableCategory lm category =
    lm\<lparr>logCategoryStates := (logCategoryStates lm)(category \<mapsto> Enabled)\<rparr>"

definition DisableCategory :: "LogManager \<Rightarrow> ELogCategory \<Rightarrow> LogManager" where
  "DisableCategory lm category =
    lm\<lparr>logCategoryStates := (logCategoryStates lm)(category \<mapsto> Disabled)\<rparr>"

text \<open>
  The two queries return their result together with the registry they leave behind;
  the result is the exception when \<^verbatim>\<open>at\<close> throws.
\<close>

definition IsCategoryEnabled :: "LogManager \<Rightarrow> ELogCategory \<Rightarrow> (error + bool) \<times> LogManager" where
  "IsCategoryEnabled lm category =
    (case logCategoryStates lm category of
       None \<Rightarrow> (Inl out_of_range, lm)
     | Some s \<Rightarrow> (Inr (s = Enabled), lm))"

definition IsCategoryDisabled :: "LogManager \<Rightarrow> ELogCategory \<Rightarrow> (error + bool) \<times> LogManager" where
  "IsCategoryDisabled lm category =
    (case logCategoryStates lm category of
       None \<Rightarrow> (Inl out_of_range, lm)
     | Some s \<Rightarrow> (Inr (s = Disabled), lm))"

section \<open>singleton.h: the process-wide instance\<close>

text \<open>
  The state of the process that the logger touches: the static pointer
  \<^verbatim>\<open>m_instance\<close> (null, or the registry it points to), the characters written to
  \<^verbatim>\<open>std::cout\<close> so far, the state of that stream (\<open>cout_good\<close> is
  \<^verbatim>\<open>std::cout.good()\<close>: none of badbit, failbit and eofbit is set), and the reading of
  the system clock in seconds, which is what
  \<^verbatim>\<open>to_time_t(high_resolution_clock::now())\<close> yields. One thread runs, so the mutex has
  no effect and both tests of the double-checked locking see the same pointer.
\<close>

record world =
  m_instance :: "LogManager option"
  cout :: string
  cout_good :: bool
  clock :: int

definition GetInstance :: "world \<Rightarrow> world \<times> LogManager" where
  "GetInstance w =
    (case m_instance w of
       None \<Rightarrow>
         (case m_instance w of
            None \<Rightarrow> (w\<lparr>m_instance := Some LogManager_new\<rparr>, LogManager_new)
          | Some t \<Rightarrow> (w, t))
     | Some t \<Rightarrow> (w, t))"

text \<open>
  The destructor \<^verbatim>\<open>~Singleton() { delete m_instance; m_instance = nullptr; }\<close>.
  Deleting a null pointer does nothing. Deleting a non-null \<^verbatim>\<open>m_instance\<close> runs the
  destructor of the \<^verbatim>\<open>LogManager\<close> it points to, which ends in the destructor of
  its base class \<^verbatim>\<open>Singleton<LogManager>\<close>: this same body, entered with the pointer
  unchanged. A run that does not come back is the value \<open>None\<close>.
\<close>

partial_function (option) Singleton_destructor :: "world \<Rightarrow> world option" where
  "Singleton_destructor w =
    Option.bind
      (if m_instance w = None then Some w else Singleton_destructor w)
      (\<lambda>w1. Some (w1\<lparr>m_instance := None\<rparr>))"

text \<open>
  \<^verbatim>\<open>DestroyInstance\<close>: when the pointer is set, \<^verbatim>\<open>delete m_instance\<close> (the
  destructor above, then the release of the storage) and \<^verbatim>\<open>m_instance = nullptr\<close>.
\<close>

definition DestroyInstance :: "world \<Rightarrow> world option" where
  "DestroyInstance w =
    (if m_instance w \<noteq> None
     then Option.bind (Singleton_destructor w) (\<lambda>w1. Some (w1\<lparr>m_instance := None\<rparr>))
     else Some w)"

section \<open>debug\_logger\_component.h: the six overloads of Debug\_Log\<close>

text \<open>
  An insertion into a stream that is not good writes nothing and leaves the stream not
  good. On a good stream, \<^verbatim>\<open>std::cout << s\<close> for a character string \<open>s\<close> (a string
  literal, the \<^verbatim>\<open>std::string\<close> of the colour code, the text of \<^verbatim>\<open>std::ctime\<close>)
  appends the characters of \<open>s\<close>, and \<^verbatim>\<open>std::endl\<close> appends a line feed (and
  flushes). The device behind the stream takes every character handed to it, and the
  stream has the exception mask it starts with (no insertion throws).
\<close>

definition put :: "string \<Rightarrow> world \<Rightarrow> world" where
  "put s w = (if cout_good w then w\<lparr>cout := cout w @ s\<rparr> else w)"

definition endl :: "world \<Rightarrow> world" where
  "endl w = put [LF] w"

text \<open>
  The arguments of the pack are of any streamable types, and the insertion of an argument
  may itself put the stream into a failed state (a null \<^verbatim>\<open>std::streambuf*\<close> sets
  badbit). \<open>insertion a\<close> stands for what \<^verbatim>\<open>std::cout << a\<close> does on a good stream:
  the characters it writes, and whether the stream is still good afterwards.
\<close>

definition put_arg :: "('a \<Rightarrow> string \<times> bool) \<Rightarrow> 'a \<Rightarrow> world \<Rightarrow> world" where
  "put_arg insertion a w =
    (if cout_good w
     then w\<lparr>cout := cout w @ fst (insertion a), cout_good := snd (insertion a)\<rparr>
     else w)"

text \<open>
  The fold expression \<^verbatim>\<open>([&] { std::cout << args; } (), ...)\<close> inserts the arguments
  of the pack one after the other, first to last.
\<close>

fun put_args :: "('a \<Rightarrow> string \<times> bool) \<Rightarrow> 'a list \<Rightarrow> world \<Rightarrow> world" where
  "put_args insertion [] w = w"
| "put_args insertion (a # args) w = put_args insertion args (put_arg insertion a w)"

text \<open>
  Each overload is \<^verbatim>\<open>noexcept\<close>: an exception that leaves it ends the process
  through \<^verbatim>\<open>std::terminate\<close>. That outcome is \<open>Inl\<close> of the exception; \<open>Inr\<close> is the
  state in which the call returns. The body is the one compiled under
  \<^verbatim>\<open>DEBUG_MODE\<close>. \<open>ctime\<close> stands for \<^verbatim>\<open>std::ctime\<close>, the calendar text of a
  clock reading in the local time zone (the clock reads the current time, for which
  \<^verbatim>\<open>std::ctime\<close> has a text).
\<close>

definition Debug_Log :: "('a \<Rightarrow> string \<times> bool) \<Rightarrow> world \<Rightarrow> 'a list \<Rightarrow> error + world" where
  "Debug_Log insertion w args =
    (let (w1, logManager) = GetInstance w;
         (r, logManager') = IsCategoryDisabled logManager Default;
         w2 = w1\<lparr>m_instance := Some logManager'\<rparr>
     in case r of
          Inl e \<Rightarrow> Inl e
        | Inr disabled \<Rightarrow>
            if disabled then Inr w2
            else Inr (endl (put_args insertion args (put ''>>> '' w2))))"

definition Debug_Log_category ::
  "('a \<Rightarrow> string \<times> bool) \<Rightarrow> world \<Rightarrow> ELogCategory \<Rightarrow> 'a list \<Rightarrow> error + world" where
  "Debug_Log_category insertion w category args =
    (let (w1, logManager) = GetInstance w;
         (r, logManager') = IsCategoryDisabled logManager category;
         w2 = w1\<lparr>m_instance := Some logManager'\<rparr>
     in case r of
          Inl e \<Rightarrow> Inl e
        | Inr disabled \<Rightarrow>
            if disabled then Inr w2
            else Inr (endl (put_args insertion args (put ''>>> '' w2))))"

definition Debug_Log_color ::
  "('a \<Rightarrow> string \<times> bool) \<Rightarrow> world \<Rightarrow> EPrintColor \<Rightarrow> 'a list \<Rightarrow> error + world" where
  "Debug_Log_color insertion w color args =
    (let (w1, logManager) = GetInstance w;
         (r, logManager') = IsCategoryDisabled logManager Default;
         w2 = w1\<lparr>m_instance := Some logManager'\<rparr>
     in case r of
          Inl e \<Rightarrow> Inl e
        | Inr disabled \<Rightarrow>
            if disabled then Inr w2
            else
              (let color_code = Color_To_Ansi color
               in Inr (endl (put UNIX_COLOR_END_TAG
                    (put_args insertion args (put color_code (put ''>>> '' w2)))))))"

definition Debug_Log_category_color ::
  "('a \<Rightarrow> string \<times> bool) \<Rightarrow> world \<Rightarrow> ELogCategory \<Rightarrow> EPrintColor \<Rightarrow> 'a list \<Rightarrow> error + world" where
  "Debug_Log_category_color insertion w category color args =
    (let (w1, logManager) = GetInstance w;
         (r, logManager') = IsCategoryDisabled logManager category;
         w2 = w1\<lparr>m_instance := Some logManager'\<rparr>
     in case r of
          Inl e \<Rightarrow> Inl e
        | Inr disabled \<Rightarrow>
            if disabled then Inr w2
            else
              (let color_code = Color_To_Ansi color
               in Inr (endl (put UNIX_COLOR_END_TAG
                    (put_args insertion args (put color_code (put ''>>> '' w2)))))))"

definition Debug_Log_color_time ::
  "('a \<Rightarrow> string \<times> bool) \<Rightarrow> (int \<Rightarrow> string) \<Rightarrow> world \<Rightarrow> EPrintColor \<Rightarrow> bool \<Rightarrow> 'a list
    \<Rightarrow> error + world" where
  "Debug_Log_color_time insertion ctime w color bShowTime args =
    (let (w1, logManager) = GetInstance w;
         (r, logManager') = IsCategoryDisabled logManager Default;
         w2 = w1\<lparr>m_instance := Some logManager'\<rparr>
     in case r of
          Inl e \<Rightarrow> Inl e
        | Inr disabled \<Rightarrow>
            if disabled then Inr w2
            else
              (let w3 = (if bShowTime
                         then (let time_struct = clock w2 in put (ctime time_struct) w2)
                         else w2);
                   color_code = Color_To_Ansi color
               in Inr (endl (put UNIX_COLOR_END_TAG
                    (put_args insertion args (put color_code (put ''>>> '' w3)))))))"

definition Debug_Log_category_color_time ::
  "('a \<Rightarrow> string \<times> bool) \<Rightarrow> (int \<Rightarrow> string) \<Rightarrow> world \<Rightarrow> ELogCategory \<Rightarrow> EPrintColor \<Rightarrow> bool
    \<Rightarrow> 'a list \<Rightarrow> error + world" where
  "Debug_Log_category_color_time insertion ctime w category color bShowTime args =
    (let (w1, logManager) = GetInstance w;
         (r, logManager') = IsCategoryDisabled logManager category;
         w2 = w1\<lparr>m_instance := Some logManager'\<rparr>
     in case r of
          Inl e \<Rightarrow> Inl e
        | Inr disabled \<Rightarrow>
            if disabled then Inr w2
            else
              (let w3 = (if bShowTime
                         then (let time_struct = clock w2 in put (ctime time_struct) w2)
                         else w2);
                   color_code = Color_To_Ansi color
               in Inr (endl (put UNIX_COLOR_END_TAG
                    (put_args insertion args (put color_code (put ''>>> '' w3)))))))"

subsection \<open>The call shapes that select an overload\<close>

text \<open>
  A call of \<^verbatim>\<open>Debug_Log\<close> has one of six shapes, told apart by the types of its
  leading arguments; each shape selects the overload with that parameter list.
\<close>

datatype 'a call =
    Call "'a list"
  | Call_category ELogCategory "'a list"
  | Call_color EPrintColor "'a list"
  | Call_category_color ELogCategory EPrintColor "'a list"
  | Call_color_time EPrintColor bool "'a list"
  | Call_category_color_time ELogCategory EPrintColor bool "'a list"

fun Debug_Log_call ::
  "('a \<Rightarrow> string \<times> bool) \<Rightarrow> (int \<Rightarrow> string) \<Rightarrow> world \<Rightarrow> 'a call \<Rightarrow> error + world" where
  "Debug_Log_call insertion ctime w (Call args) = Debug_Log insertion w args"
| "Debug_Log_call insertion ctime w (Call_category category args) =
     Debug_Log_category insertion w category args"
| "Debug_Log_call insertion ctime w (Call_color color args) =
     Debug_Log_color insertion w color args"
| "Debug_Log_call insertion ctime w (Call_category_color category color args) =
     Debug_Log_category_color insertion w category color args"
| "Debug_Log_call insertion ctime w (Call_color_time color bShowTime args) =
     Debug_Log_color_time insertion ctime w color bShowTime args"
| "Debug_Log_call insertion ctime w (Call_category_color_time category color bShowTime args) =
     Debug_Log_category_color_time insertion ctime w category color bShowTime args"

text \<open>
  What the specification reads off a call: its effective category (the explicit one, or
  \<open>Default\<close>), its colour and its timestamp flag when the shape has them, and its
  arguments.
\<close>

fun effective_category :: "'a call \<Rightarrow> ELogCategory" where
  "effective_category (Call args) = Default"
| "effective_category (Call_category category args) = category"
| "effective_category (Call_color color args) = Default"
| "effective_category (Call_category_color category color args) = category"
| "effective_category (Call_color_time color bShowTime args) = Default"
| "effective_category (Call_category_color_time category color bShowTime args) = category"





definition registry_disabled :: "world \<Rightarrow> ELogCategory \<Rightarrow> bool" where
  "registry_disabled w category =
    (fst (IsCategoryDisabled (snd (GetInstance w)) category) = Inr True)"

text \<open>
  The registries reachable from construction by calls of \<^verbatim>\<open>EnableCategory\<close> and
  \<^verbatim>\<open>DisableCategory\<close>.
\<close>

inductive reachable :: "LogManager \<Rightarrow> bool" where
  constructed: "reachable LogManager_new"
| enabled: "reachable lm \<Longrightarrow> reachable (EnableCategory lm category)"
| disabled: "reachable lm \<Longrightarrow> reachable (DisableCategory lm category)"

text \<open>
  Two kinds of argument, for the examples below: a character string, whose insertion
  writes its characters, and a null \<^verbatim>\<open>std::streambuf*\<close>, whose insertion writes
  nothing and sets badbit.
\<close>

datatype arg = C_string string | null_streambuf

fun insert_arg :: "arg \<Rightarrow> string \<times> bool" where
  "insert_arg (C_string s) = (s, True)"
| "insert_arg null_streambuf = ([], False)"

section \<open>Basic facts\<close>

lemmas EPrintColor_defs =
  Red_def Green_def Blue_def White_def Black_def Magenta_def Cyan_def Yellow_def
  Gray_def LightRed_def LightGreen_def LightBlue_def LightWhite_def LightMagenta_def
  LightCyan_def LightYellow_def

lemmas ELogCategory_defs =
  Default_def Error_def Core_def Editor_def Component_def Threads_def AutoCount_def

declare LogManager_loop.simps [simp del]

lemma LogManager_loop_eq:
  "LogManager_loop i m = (\<lambda>c. if i \<le> c \<and> c < AutoCount then Some Enabled else m c)"
proof (induction i m rule: LogManager_loop.induct)
  case (1 i m)
  show ?case
  proof (cases "i < AutoCount")
    case True
    have "LogManager_loop i m = LogManager_loop (i + 1) (m(i \<mapsto> Enabled))"
      by (subst LogManager_loop.simps) (simp add: True)
    also have "\<dots> = (\<lambda>c. if i + 1 \<le> c \<and> c < AutoCount then Some Enabled
                          else (m(i \<mapsto> Enabled)) c)"
      by (rule "1.IH" [OF True])
    also have "\<dots> = (\<lambda>c. if i \<le> c \<and> c < AutoCount then Some Enabled else m c)"
      using True by (auto simp: fun_eq_iff)
    finally show ?thesis .
  next
    case False
    then show ?thesis
      by (subst LogManager_loop.simps) (auto simp: fun_eq_iff)
  qed
qed

lemma logCategoryStates_new:
  "logCategoryStates LogManager_new c = (if 0 \<le> c \<and> c < 6 then Some Enabled else None)"
  by (simp add: LogManager_new_def LogManager_loop_eq AutoCount_def)




lemma GetInstance_cases:
  "GetInstance w = (case m_instance w of None \<Rightarrow> (w\<lparr>m_instance := Some LogManager_new\<rparr>, LogManager_new) | Some t \<Rightarrow> (w, t))"
  by (simp add: GetInstance_def split: option.splits)

lemma GetInstance_instance: "m_instance (fst (GetInstance w)) = Some (snd (GetInstance w))"
  by (simp add: GetInstance_cases split: option.splits)




lemma Singleton_destructor_returns:
  assumes returns: "Singleton_destructor w = Some w'"
  shows "m_instance w = None"
proof (rule Singleton_destructor.raw_induct [where P = "\<lambda>x y. m_instance x = None", OF _ returns])
  fix rec :: "world \<Rightarrow> world option" and x y
  assume IH: "\<And>x y. rec x = Some y \<Longrightarrow> m_instance x = None"
    and body: "Option.bind (if m_instance x = None then Some x else rec x)
                 (\<lambda>w1. Some (w1\<lparr>m_instance := None\<rparr>)) = Some y"
  show "m_instance x = None"
  proof (rule ccontr)
    assume live: "m_instance x \<noteq> None"
    with body obtain z where "rec x = Some z"
      by (auto simp: Option.bind_eq_Some_conv)
    then have "m_instance x = None" by (rule IH)
    with live show False by simp
  qed
qed

lemma Singleton_destructor_diverges:
  "m_instance w \<noteq> None \<Longrightarrow> Singleton_destructor w = None"
  using Singleton_destructor_returns by (cases "Singleton_destructor w") auto

lemma m_instance_same: "m_instance w = Some lm \<Longrightarrow> w\<lparr>m_instance := Some lm\<rparr> = w"
  by (cases w) simp

lemma GetInstance_store:
  "(fst (GetInstance w))\<lparr>m_instance := Some (snd (GetInstance w))\<rparr> = fst (GetInstance w)"
  by (rule m_instance_same) (rule GetInstance_instance)

lemma GetInstance_disabled_exists:
  assumes "logCategoryStates (snd (GetInstance w)) c = Some Disabled"
  shows "GetInstance w = (w, snd (GetInstance w))"
  using assms
  by (auto simp: GetInstance_cases logCategoryStates_new split: option.splits if_splits)


lemma Debug_Log_call_suppressed:
  assumes state: "logCategoryStates (snd (GetInstance w)) (effective_category call) = Some Disabled"
  shows "Debug_Log_call insertion ctime w call = Inr w"
proof -
  obtain lm where g: "GetInstance w = (w, lm)"
    using GetInstance_disabled_exists [OF state] by blast
  have st: "w\<lparr>m_instance := Some lm\<rparr> = w"
    using GetInstance_store [of w] g by simp
  from state g have look: "logCategoryStates lm (effective_category call) = Some Disabled" by simp
  show ?thesis
    using look
    by (cases call)
      (simp_all add: Debug_Log_def Debug_Log_category_def Debug_Log_color_def
        Debug_Log_category_color_def Debug_Log_color_time_def Debug_Log_category_color_time_def
        g IsCategoryDisabled_def st)
qed


lemma registry_disabled_iff:
  "registry_disabled w c \<longleftrightarrow> logCategoryStates (snd (GetInstance w)) c = Some Disabled"
  by (auto simp: registry_disabled_def IsCategoryDisabled_def split: option.splits)


lemma reachable_states:
  "reachable lm \<Longrightarrow> logCategoryStates lm c = Some s \<Longrightarrow> s = Enabled \<or> s = Disabled"
proof (induction arbitrary: s rule: reachable.induct)
  case constructed
  then show ?case by (simp add: logCategoryStates_new split: if_splits)
next
  case (enabled lm category)
  then show ?case by (auto simp: EnableCategory_def split: if_splits)
next
  case (disabled lm category)
  then show ?case by (auto simp: DisableCategory_def split: if_splits)
qed

section \<open>The registry\<close>

text \<open>
  Claim C2. Immediately after construction, each of the six categories \<open>Default\<close>,
  \<open>Error\<close>, \<open>Core\<close>, \<open>Editor\<close>, \<open>Component\<close> and \<open>Threads\<close> is reported
  enabled by \<^verbatim>\<open>IsCategoryEnabled\<close> and not disabled by \<^verbatim>\<open>IsCategoryDisabled\<close>,
  and the sentinel \<open>AutoCount\<close> is no key of the map: the keys are exactly the six
  categories.
\<close>

theorem LogManager_new_all_enabled:
  "fst (IsCategoryEnabled LogManager_new Default) = Inr True
   \<and> fst (IsCategoryEnabled LogManager_new Error) = Inr True
   \<and> fst (IsCategoryEnabled LogManager_new Core) = Inr True
   \<and> fst (IsCategoryEnabled LogManager_new Editor) = Inr True
   \<and> fst (IsCategoryEnabled LogManager_new Component) = Inr True
   \<and> fst (IsCategoryEnabled LogManager_new Threads) = Inr True
   \<and> fst (IsCategoryDisabled LogManager_new Default) = Inr False
   \<and> fst (IsCategoryDisabled LogManager_new Error) = Inr False
   \<and> fst (IsCategoryDisabled LogManager_new Core) = Inr False
   \<and> fst (IsCategoryDisabled LogManager_new Editor) = Inr False
   \<and> fst (IsCategoryDisabled LogManager_new Component) = Inr False
   \<and> fst (IsCategoryDisabled LogManager_new Threads) = Inr False
   \<and> AutoCount \<notin> dom (logCategoryStates LogManager_new)
   \<and> dom (logCategoryStates LogManager_new) = {Default, Error, Core, Editor, Component, Threads}"
  by (auto simp: IsCategoryEnabled_def IsCategoryDisabled_def logCategoryStates_new
      ELogCategory_defs dom_def split: if_splits)

text \<open>
  Claim C3. For every category \<open>c\<close> and every registry, \<^verbatim>\<open>IsCategoryDisabled(c)\<close> is
  true after \<^verbatim>\<open>DisableCategory(c)\<close>, \<^verbatim>\<open>IsCategoryEnabled(c)\<close> is true after
  \<^verbatim>\<open>EnableCategory(c)\<close>, and calling either mutator twice in a row leaves the same
  registry as calling it once.
\<close>

theorem Enable_Disable_effect_idempotent:
  "fst (IsCategoryDisabled (DisableCategory lm c) c) = Inr True
   \<and> fst (IsCategoryEnabled (EnableCategory lm c) c) = Inr True
   \<and> EnableCategory (EnableCategory lm c) c = EnableCategory lm c
   \<and> DisableCategory (DisableCategory lm c) c = DisableCategory lm c"
  by (simp add: IsCategoryEnabled_def IsCategoryDisabled_def EnableCategory_def
      DisableCategory_def)

text \<open>
  Claim C8. In every registry reachable from construction by calls of
  \<^verbatim>\<open>EnableCategory\<close> and \<^verbatim>\<open>DisableCategory\<close>, and for every category \<open>c\<close> that is
  a key of the map, exactly one of \<^verbatim>\<open>IsCategoryEnabled(c)\<close> and
  \<^verbatim>\<open>IsCategoryDisabled(c)\<close> returns true and the other returns false, and each query
  leaves the registry as it found it.
\<close>

theorem IsCategory_queries_complementary:
  assumes "reachable lm" and "c \<in> dom (logCategoryStates lm)"
  shows "((fst (IsCategoryEnabled lm c) = Inr True \<and> fst (IsCategoryDisabled lm c) = Inr False)
          \<or> (fst (IsCategoryEnabled lm c) = Inr False \<and> fst (IsCategoryDisabled lm c) = Inr True))
         \<and> snd (IsCategoryEnabled lm c) = lm
         \<and> snd (IsCategoryDisabled lm c) = lm"
proof -
  from assms(2) obtain s where s: "logCategoryStates lm c = Some s" by auto
  with assms(1) have "s = Enabled \<or> s = Disabled" by (rule reachable_states)
  with s show ?thesis
    by (auto simp: IsCategoryEnabled_def IsCategoryDisabled_def)
qed

theorem IsCategory_queries_complementary_witness:
  "reachable (DisableCategory LogManager_new Core)
   \<and> Core \<in> dom (logCategoryStates (DisableCategory LogManager_new Core))
   \<and> fst (IsCategoryEnabled (DisableCategory LogManager_new Core) Core) = Inr False
   \<and> fst (IsCategoryDisabled (DisableCategory LogManager_new Core) Core) = Inr True
   \<and> snd (IsCategoryEnabled (DisableCategory LogManager_new Core) Core)
       = DisableCategory LogManager_new Core
   \<and> snd (IsCategoryDisabled (DisableCategory LogManager_new Core) Core)
       = DisableCategory LogManager_new Core"
proof -
  have r: "reachable (DisableCategory LogManager_new Core)"
    by (rule reachable.disabled [OF reachable.constructed])
  have d: "Core \<in> dom (logCategoryStates (DisableCategory LogManager_new Core))"
    by (simp add: DisableCategory_def)
  show ?thesis
    using r d IsCategory_queries_complementary [OF r d]
    by (simp add: IsCategoryEnabled_def IsCategoryDisabled_def DisableCategory_def)
qed

text \<open>
  Claim C10. For a category \<open>c\<close> that is no key of the map (the sentinel \<open>AutoCount\<close>
  after construction, for one): both queries throw \<^verbatim>\<open>std::out_of_range\<close>;
  \<^verbatim>\<open>EnableCategory(c)\<close> and \<^verbatim>\<open>DisableCategory(c)\<close> do not fail but add \<open>c\<close> to
  the keys, and afterwards both queries on \<open>c\<close> return a boolean.
\<close>

theorem unpopulated_category_behaviour:
  assumes "c \<notin> dom (logCategoryStates lm)"
  shows "fst (IsCategoryEnabled lm c) = Inl out_of_range
         \<and> fst (IsCategoryDisabled lm c) = Inl out_of_range
         \<and> dom (logCategoryStates (EnableCategory lm c)) = insert c (dom (logCategoryStates lm))
         \<and> dom (logCategoryStates (DisableCategory lm c)) = insert c (dom (logCategoryStates lm))
         \<and> fst (IsCategoryEnabled (EnableCategory lm c) c) = Inr True
         \<and> fst (IsCategoryDisabled (EnableCategory lm c) c) = Inr False
         \<and> fst (IsCategoryEnabled (DisableCategory lm c) c) = Inr False
         \<and> fst (IsCategoryDisabled (DisableCategory lm c) c) = Inr True"
  using assms
  by (auto simp: IsCategoryEnabled_def IsCategoryDisabled_def EnableCategory_def
      DisableCategory_def dom_def)

theorem unpopulated_category_behaviour_witness:
  "AutoCount \<notin> dom (logCategoryStates LogManager_new)
   \<and> fst (IsCategoryEnabled LogManager_new AutoCount) = Inl out_of_range
   \<and> fst (IsCategoryDisabled LogManager_new AutoCount) = Inl out_of_range
   \<and> AutoCount \<in> dom (logCategoryStates (DisableCategory LogManager_new AutoCount))
   \<and> fst (IsCategoryEnabled (EnableCategory LogManager_new AutoCount) AutoCount) = Inr True
   \<and> fst (IsCategoryDisabled (DisableCategory LogManager_new AutoCount) AutoCount) = Inr True"
proof -
  have absent: "AutoCount \<notin> dom (logCategoryStates LogManager_new)"
    by (simp add: dom_def logCategoryStates_new AutoCount_def)
  show ?thesis
    using absent unpopulated_category_behaviour [OF absent] by simp
qed

section \<open>The colour table\<close>

text \<open>
  Claim C7. \<^verbatim>\<open>Color_To_Ansi\<close> yields a sequence for every byte: each of the sixteen
  enumerated colours has its fixed escape sequence, \<open>LightYellow\<close> has the sequence of
  \<open>LightBlue\<close>, and every byte above the last enumerator (16 to 255) has the sequence of
  \<open>White\<close>.
\<close>

theorem Color_To_Ansi_table:
  "Color_To_Ansi Red = ESC # ''[1;31m''
   \<and> Color_To_Ansi Green = ESC # ''[1;32m''
   \<and> Color_To_Ansi Blue = ESC # ''[1;34m''
   \<and> Color_To_Ansi White = ESC # ''[1;37m''
   \<and> Color_To_Ansi Black = ESC # ''[1;30m''
   \<and> Color_To_Ansi Magenta = ESC # ''[1;35m''
   \<and> Color_To_Ansi Cyan = ESC # ''[1;36m''
   \<and> Color_To_Ansi Yellow = ESC # ''[1;33m''
   \<and> Color_To_Ansi Gray = ESC # ''[1;90m''
   \<and> Color_To_Ansi LightRed = ESC # ''[1;91m''
   \<and> Color_To_Ansi LightGreen = ESC # ''[1;92m''
   \<and> Color_To_Ansi LightBlue = ESC # ''[1;94m''
   \<and> Color_To_Ansi LightWhite = ESC # ''[1;97m''
   \<and> Color_To_Ansi LightMagenta = ESC # ''[1;95m''
   \<and> Color_To_Ansi LightCyan = ESC # ''[1;96m''
   \<and> Color_To_Ansi LightYellow = ESC # ''[1;94m''
   \<and> Color_To_Ansi LightYellow = Color_To_Ansi LightBlue
   \<and> (\<forall>color. LightYellow < color \<longrightarrow> Color_To_Ansi color = ESC # ''[1;37m'')"
  by (auto simp: Color_To_Ansi_def EPrintColor_defs)

theorem Color_To_Ansi_table_witness:
  "LightYellow < (200 :: EPrintColor) \<and> Color_To_Ansi 200 = ESC # ''[1;37m''"
proof -
  have above: "LightYellow < (200 :: EPrintColor)" by (simp add: LightYellow_def)
  from Color_To_Ansi_table have "\<forall>color. LightYellow < color \<longrightarrow> Color_To_Ansi color = ESC # ''[1;37m''"
    by (elim conjE)
  with above show ?thesis by blast
qed

section \<open>The singleton\<close>

text \<open>
  Claim C9 says that after \<^verbatim>\<open>DestroyInstance\<close> the next \<^verbatim>\<open>GetInstance\<close> builds a
  fresh registry in which a category disabled before is enabled again. With a live
  instance (here one whose category \<open>Core\<close> has been disabled) \<^verbatim>\<open>DestroyInstance\<close>
  does not come back: \<^verbatim>\<open>delete m_instance\<close> enters the destructor of the base class,
  which deletes the same, still set, pointer again, without end. The pointer is never
  reset and no later \<^verbatim>\<open>GetInstance\<close> is reached.
\<close>

theorem DestroyInstance_live_instance_diverges:
  "DestroyInstance \<lparr>m_instance = Some (DisableCategory LogManager_new Core), cout = [],
     cout_good = True, clock = 0\<rparr> = None"
  by (simp add: DestroyInstance_def Singleton_destructor_diverges)

section \<open>The logger\<close>

text \<open>
  Claim C1. For every call shape and every argument list: when the effective category of
  the call (its category argument, or \<open>Default\<close> when the shape has none) is disabled in
  the registry, the call returns and leaves the whole state, the output included, as it
  was, whatever colour and timestamp flag it was given.
\<close>

theorem Debug_Log_disabled_silent:
  assumes "registry_disabled w (effective_category call)"
  shows "Debug_Log_call insertion ctime w call = Inr w"
  using assms by (simp add: registry_disabled_iff Debug_Log_call_suppressed)

theorem Debug_Log_disabled_silent_witness:
  "registry_disabled
      \<lparr>m_instance = Some (DisableCategory LogManager_new Default), cout = [],
       cout_good = True, clock = 0\<rparr>
      (effective_category (Call_color_time Red True [C_string ''x'']))
   \<and> Debug_Log_call insert_arg (\<lambda>t. ''Thu Jan  1 00:00:00 1970'' @ [LF])
        \<lparr>m_instance = Some (DisableCategory LogManager_new Default), cout = [],
         cout_good = True, clock = 0\<rparr>
        (Call_color_time Red True [C_string ''x''])
      = Inr \<lparr>m_instance = Some (DisableCategory LogManager_new Default), cout = [],
             cout_good = True, clock = 0\<rparr>"
proof -
  let ?w = "\<lparr>m_instance = Some (DisableCategory LogManager_new Default), cout = [],
             cout_good = True, clock = 0\<rparr>"
  have off: "registry_disabled ?w (effective_category (Call_color_time Red True [C_string ''x'']))"
    by (simp add: registry_disabled_iff GetInstance_cases DisableCategory_def)
  show ?thesis
    using off
      Debug_Log_disabled_silent [OF off, of insert_arg "\<lambda>t. ''Thu Jan  1 00:00:00 1970'' @ [LF]"]
    by simp
qed










end
